theory Spec2Isabelle
  imports Complex_Main
begin

section \<open>Data model\<close>

text \<open>
  The wallet ledger and escrow engine of the repository, as a shallow embedding of the
  branch that talks to the durable store (\<open>req.useMockData\<close> false).

  Conventions of the embedding:
  \<^item> a JavaScript \<open>Number\<close> that holds money is a rational number (\<open>rat\<close>), so
    \<open>amount * 0.05\<close> is the exact product with \<open>1/20\<close>; IEEE rounding is not modelled;
  \<^item> a request field that is a string is a \<open>string\<close>, the empty string standing for a
    field that is absent or empty (both are falsy in the source); a field whose absence the
    source treats differently from the empty string is an \<open>option\<close>;
  \<^item> an \<open>ObjectId\<close> is a natural number taken from a counter kept with the store;
  \<^item> a wallet document is stored under its \<open>userId\<close> and an escrow document under its
    \<open>_id\<close>: the key is the field, so the records below do not repeat it;
  \<^item> dates (\<open>lastUpdated\<close>, \<open>fundedAt\<close>, ...) are left out: no decision of the source
    reads them.
\<close>

type_synonym user_id = string
type_synonym object_id = nat

record escrow_reserve =
  r_escrowId :: object_id
  r_amount :: rat

record payment_method =
  pm_id :: string
  pm_type :: string
  pm_last4 :: "string option"
  pm_expiryDate :: "string option"
  pm_name :: string
  pm_isDefault :: bool

record wallet =
  w_balance :: rat
  w_currency :: string
  w_reservedBalance :: rat
  w_escrowReserves :: "escrow_reserve list"
  w_paymentMethods :: "payment_method list"
  w_transactionIds :: "object_id list"

subsection \<open>Wallet methods and the pre-save hook (server/models/Wallet.js)\<close>

text \<open>\<open>escrowReserves.reduce((total, reserve) => total + reserve.amount, 0)\<close>\<close>

definition sum_reserves :: "escrow_reserve list \<Rightarrow> rat" where
  "sum_reserves rs = foldl (\<lambda>total reserve. total + r_amount reserve) 0 rs"

definition recalculateReservedBalance :: "wallet \<Rightarrow> wallet" where
  "recalculateReservedBalance w = w\<lparr>w_reservedBalance := sum_reserves (w_escrowReserves w)\<rparr>"

definition getAvailableBalance :: "wallet \<Rightarrow> rat" where
  "getAvailableBalance w = w_balance w - w_reservedBalance w"

text \<open>The hook registered with \<open>WalletSchema.pre('save', ...)\<close>.\<close>

definition preSave :: "wallet \<Rightarrow> wallet" where
  "preSave w =
     (if length (w_escrowReserves w) > 0 then recalculateReservedBalance w else w)"


subsection \<open>Escrows and transactions (server/models/Escrow.js, Transaction.js)\<close>

datatype escrow_status =
  Created | Funded | In_progress | Delivered | Approved | Disputed | Refunded | Released
  | Cancelled

record escrow =
  e_clientId :: user_id
  e_freelancerId :: user_id
  e_serviceId :: "string option"
  e_serviceName :: string
  e_description :: string
  e_amount :: rat
  e_currency :: string
  e_platformFee :: rat
  e_paymentMethodId :: string
  e_transactionId :: "object_id option"
  e_status :: escrow_status
  e_deliveryMessage :: "string option"
  e_deliveryFiles :: "string list"
  e_approvalRating :: "rat option"
  e_approvalFeedback :: "string option"
  e_disputeReason :: "string option"
  e_terms :: "string option"

datatype transaction_type = Deposit | Withdrawal | Payment | Refund | Escrow

record transaction =
  t_id :: object_id
  t_userId :: user_id
  t_amount :: rat
  t_currency :: string
  t_status :: string
  t_paymentMethodId :: string
  t_type :: transaction_type
  t_description :: string
  t_reference :: "object_id option"
  t_referenceModel :: "string option"

subsection \<open>The store\<close>

text \<open>
  The three collections. Wallets are keyed by \<open>userId\<close> (the schema's unique index),
  escrows by \<open>_id\<close>; the transaction collection is the append-only log.
\<close>

record db =
  wallets :: "user_id \<rightharpoonup> wallet"
  escrows :: "object_id \<rightharpoonup> escrow"
  transactions :: "transaction list"
  nextId :: object_id

definition empty_db :: db where
  "empty_db = \<lparr>wallets = Map.empty, escrows = Map.empty, transactions = [], nextId = 0\<rparr>"

text \<open>
  A write to the store can be refused (connection lost, timeout). A request carries a
  \<open>fault\<close>: \<open>None\<close> when every write it issues goes through, \<open>Some n\<close> when its first
  \<open>n\<close> writes go through and the next one throws.
\<close>

type_synonym fault = "nat option"

definition write_fails :: "fault \<Rightarrow> bool" where
  "write_fails f = (f = Some 0)"

definition after_write :: "fault \<Rightarrow> fault" where
  "after_write f = map_option (\<lambda>n. n - 1) f"

text \<open>The next \<open>k\<close> writes all go through.\<close>

definition no_fault_within :: "nat \<Rightarrow> fault \<Rightarrow> bool" where
  "no_fault_within k f = (case f of None \<Rightarrow> True | Some n \<Rightarrow> k \<le> n)"

text \<open>
  Schema validation, run by \<open>save\<close> before the hooks: \<open>required\<close> strings are non-empty,
  \<open>min\<close>/\<open>max\<close> bounds hold, \<open>enum\<close> strings are in their list.
\<close>

definition payment_method_valid :: "payment_method \<Rightarrow> bool" where
  "payment_method_valid m \<longleftrightarrow>
     pm_id m \<noteq> [] \<and> pm_type m \<in> set [''credit_card'', ''paypal'', ''bank_transfer'']"

definition wallet_valid :: "wallet \<Rightarrow> bool" where
  "wallet_valid w \<longleftrightarrow>
     0 \<le> w_balance w \<and> w_currency w \<noteq> [] \<and> 0 \<le> w_reservedBalance w
     \<and> list_all payment_method_valid (w_paymentMethods w)"

definition rating_valid :: "rat option \<Rightarrow> bool" where
  "rating_valid r = (case r of None \<Rightarrow> True | Some x \<Rightarrow> 1 \<le> x \<and> x \<le> 5)"

definition escrow_valid :: "escrow \<Rightarrow> bool" where
  "escrow_valid e \<longleftrightarrow>
     e_clientId e \<noteq> [] \<and> e_freelancerId e \<noteq> [] \<and> e_serviceName e \<noteq> []
     \<and> e_description e \<noteq> [] \<and> e_currency e \<noteq> [] \<and> e_paymentMethodId e \<noteq> []
     \<and> rating_valid (e_approvalRating e)"

definition transaction_valid :: "transaction \<Rightarrow> bool" where
  "transaction_valid t \<longleftrightarrow>
     t_userId t \<noteq> [] \<and> t_currency t \<noteq> [] \<and> t_paymentMethodId t \<noteq> []
     \<and> t_status t \<in> set [''pending'', ''completed'', ''failed'', ''refunded'']"

text \<open>
  \<open>doc.save()\<close>: \<open>None\<close> when it throws (validation error or refused write), otherwise the
  store after the write and the fault for the writes that follow.
\<close>

definition Wallet_save ::
  "fault \<Rightarrow> user_id \<Rightarrow> wallet \<Rightarrow> db \<Rightarrow> (db \<times> fault) option" where
  "Wallet_save f userId w d =
     (if userId = [] \<or> \<not> wallet_valid w \<or> write_fails f then None
      else Some (d\<lparr>wallets := (wallets d)(userId \<mapsto> preSave w)\<rparr>, after_write f))"

definition Escrow_save ::
  "fault \<Rightarrow> object_id \<Rightarrow> escrow \<Rightarrow> db \<Rightarrow> (db \<times> fault) option" where
  "Escrow_save f escrowId e d =
     (if \<not> escrow_valid e \<or> write_fails f then None
      else Some (d\<lparr>escrows := (escrows d)(escrowId \<mapsto> e)\<rparr>, after_write f))"

definition Transaction_save :: "fault \<Rightarrow> transaction \<Rightarrow> db \<Rightarrow> (db \<times> fault) option" where
  "Transaction_save f t d =
     (if \<not> transaction_valid t \<or> write_fails f then None
      else Some (d\<lparr>transactions := transactions d @ [t]\<rparr>, after_write f))"

text \<open>\<open>new mongoose.Types.ObjectId()\<close>: the next identifier, and the store counting on.\<close>

definition new_ObjectId :: "db \<Rightarrow> object_id \<times> db" where
  "new_ObjectId d = (nextId d, d\<lparr>nextId := Suc (nextId d)\<rparr>)"

text \<open>
  \<open>new Wallet({userId, balance: 0, currency})\<close>, the other fields at their defaults; the
  \<open>userId\<close> is the key it is saved under.
\<close>

definition new_Wallet :: "string \<Rightarrow> wallet" where
  "new_Wallet currency =
     \<lparr>w_balance = 0, w_currency = currency, w_reservedBalance = 0,
      w_escrowReserves = [], w_paymentMethods = [], w_transactionIds = []\<rparr>"

subsection \<open>Responses\<close>

text \<open>
  An error response is its HTTP status and body. In the words of the specification:
  \<open>Bad_Request\<close> (400) is a ValidationError, \<open>Insufficient_Funds\<close> (400 with
  \<open>availableBalance\<close>, \<open>requested\<close> and, from one site, \<open>platformFee\<close>) an
  InsufficientFundsError, \<open>Invalid_State\<close> (400 with \<open>status\<close> and \<open>requiredStatus\<close>) an
  InvalidStateError, \<open>Forbidden\<close> (403) a NotAuthorizedError, \<open>Not_Found\<close> (404) a
  NotFoundError and \<open>Server_Error\<close> (500) a StoreError.
\<close>

datatype error =
  Bad_Request string
  | Insufficient_Funds string rat rat "rat option"
  | Invalid_State string escrow_status escrow_status
  | Forbidden string
  | Not_Found string
  | Server_Error string

text \<open>Array helpers of the source language.\<close>

fun findIndex :: "('a \<Rightarrow> bool) \<Rightarrow> 'a list \<Rightarrow> nat option" where
  "findIndex p [] = None"
| "findIndex p (x # xs) =
     (if p x then Some 0 else map_option Suc (findIndex p xs))"

text \<open>\<open>xs.splice(i, 1)\<close>\<close>

definition splice1 :: "nat \<Rightarrow> 'a list \<Rightarrow> 'a list" where
  "splice1 i xs = take i xs @ drop (Suc i) xs"

text \<open>\<open>s.slice(-k)\<close> on a string: its last \<open>k\<close> characters.\<close>

definition slice_last :: "nat \<Rightarrow> string \<Rightarrow> string" where
  "slice_last k s = drop (length s - k) s"

text \<open>The 24 hexadecimal digits of \<open>ObjectId.toString()\<close>.\<close>

definition hex_digit :: "nat \<Rightarrow> char" where
  "hex_digit k = ''0123456789abcdef'' ! (k mod 16)"

definition ObjectId_toString :: "object_id \<Rightarrow> string" where
  "ObjectId_toString n = map (\<lambda>k. hex_digit (n div 16 ^ k)) (rev [0..<24])"

section \<open>Wallet routes\<close>

text \<open>
  Every route is a function of the fault, the request and the store, and returns the
  response with the store it leaves behind. The payment gateway is not configured
  (\<open>STRIPE_SECRET_KEY\<close> is empty), so \<open>stripe\<close> is undefined and its branches do not run.
\<close>

text \<open>
  Middleware \<open>getUserWallet\<close>: the wallet of the user, created and saved when there is
  none.
\<close>

definition getUserWallet :: "fault \<Rightarrow> user_id \<Rightarrow> db \<Rightarrow> error + (wallet \<times> db \<times> fault)" where
  "getUserWallet f userId d =
     (if userId = [] then Inl (Bad_Request ''User ID is required'')
      else case wallets d userId of
        Some wallet \<Rightarrow> Inr (wallet, d, f)
      | None \<Rightarrow>
          (case Wallet_save f userId (new_Wallet ''TND'') d of
             None \<Rightarrow> Inl (Server_Error ''Failed to retrieve wallet'')
           | Some (d', f') \<Rightarrow> Inr (preSave (new_Wallet ''TND''), d', f')))"

text \<open>\<open>GET /wallet/:userId\<close>\<close>

definition get_wallet :: "fault \<Rightarrow> user_id \<Rightarrow> db \<Rightarrow> (error + wallet) \<times> db" where
  "get_wallet f userId d =
     (case getUserWallet f userId d of
        Inl err \<Rightarrow> (Inl err, d)
      | Inr (wallet, d1, f1) \<Rightarrow> (Inr wallet, d1))"

text \<open>\<open>POST /wallet/:userId/payment-methods\<close>\<close>

record payment_method_body =
  b_type :: string
  b_cardNumber :: "string option"
  b_expiryMonth :: "string option"
  b_expiryYear :: "string option"
  b_name :: string
  b_isDefault :: bool

text \<open>A value inside a template literal: \<open>undefined\<close> prints as the word.\<close>

definition template_value :: "string option \<Rightarrow> string" where
  "template_value v = (case v of None \<Rightarrow> ''undefined'' | Some s \<Rightarrow> s)"

definition add_payment_method ::
  "fault \<Rightarrow> user_id \<Rightarrow> payment_method_body \<Rightarrow> db \<Rightarrow> (error + payment_method) \<times> db" where
  "add_payment_method f userId body d =
     (case getUserWallet f userId d of
        Inl err \<Rightarrow> (Inl err, d)
      | Inr (wallet, d1, f1) \<Rightarrow>
          if b_type body = [] then (Inl (Bad_Request ''Payment method type is required''), d1)
          else
            let oid = fst (new_ObjectId d1); d2 = snd (new_ObjectId d1) in
            (case (if b_type body = ''credit_card'' then b_expiryYear body else Some []) of
               None \<Rightarrow> (Inl (Server_Error ''Failed to add payment method''), d2)
             | Some expiryYear \<Rightarrow>
                 let newMethod =
                       \<lparr>pm_id = ''pm_'' @ ObjectId_toString oid,
                        pm_type = b_type body,
                        pm_last4 = (if b_type body = ''credit_card''
                                    then map_option (slice_last 4) (b_cardNumber body)
                                    else None),
                        pm_expiryDate = (if b_type body = ''credit_card''
                                    then Some (template_value (b_expiryMonth body) @ ''/''
                                               @ slice_last 2 expiryYear)
                                    else None),
                        pm_name = (if b_name body \<noteq> [] then b_name body else b_type body),
                        pm_isDefault = (b_isDefault body \<or> length (w_paymentMethods wallet) = 0)\<rparr>;
                     methods = (if pm_isDefault newMethod
                                then map (\<lambda>method. method\<lparr>pm_isDefault := False\<rparr>)
                                       (w_paymentMethods wallet)
                                else w_paymentMethods wallet);
                     wallet' = wallet\<lparr>w_paymentMethods := methods @ [newMethod]\<rparr>
                 in (case Wallet_save f1 userId wallet' d2 of
                      None \<Rightarrow> (Inl (Server_Error ''Failed to add payment method''), d2)
                    | Some (d3, f3) \<Rightarrow> (Inr newMethod, d3))))"

text \<open>\<open>DELETE /wallet/:userId/payment-methods/:methodId\<close>\<close>

definition remove_payment_method ::
  "fault \<Rightarrow> user_id \<Rightarrow> string \<Rightarrow> db \<Rightarrow> (error + unit) \<times> db" where
  "remove_payment_method f userId methodId d =
     (case getUserWallet f userId d of
        Inl err \<Rightarrow> (Inl err, d)
      | Inr (wallet, d1, f1) \<Rightarrow>
          (case findIndex (\<lambda>m. pm_id m = methodId) (w_paymentMethods wallet) of
             None \<Rightarrow> (Inl (Not_Found ''Payment method not found''), d1)
           | Some methodIndex \<Rightarrow>
               let isDefault = pm_isDefault (w_paymentMethods wallet ! methodIndex) in
               if isDefault \<and> length (w_paymentMethods wallet) = 1
               then (Inl (Bad_Request ''Cannot remove the only payment method''), d1)
               else
                 (case (if isDefault \<and> length (w_paymentMethods wallet) > 1
                        then (case findIndex (\<lambda>m. pm_id m \<noteq> methodId) (w_paymentMethods wallet) of
                                None \<Rightarrow> None
                              | Some newDefaultIndex \<Rightarrow>
                                  Some ((w_paymentMethods wallet)
                                     [newDefaultIndex :=
                                        (w_paymentMethods wallet ! newDefaultIndex)
                                          \<lparr>pm_isDefault := True\<rparr>]))
                        else Some (w_paymentMethods wallet)) of
                    None \<Rightarrow> (Inl (Server_Error ''Failed to remove payment method''), d1)
                  | Some methods \<Rightarrow>
                      (case Wallet_save f1 userId
                              (wallet\<lparr>w_paymentMethods := splice1 methodIndex methods\<rparr>) d1 of
                         None \<Rightarrow> (Inl (Server_Error ''Failed to remove payment method''), d1)
                       | Some (d2, f2) \<Rightarrow> (Inr (), d2)))))"

text \<open>\<open>PUT /wallet/:userId/payment-methods/:methodId/default\<close>\<close>

definition set_default_payment_method ::
  "fault \<Rightarrow> user_id \<Rightarrow> string \<Rightarrow> db \<Rightarrow> (error + unit) \<times> db" where
  "set_default_payment_method f userId methodId d =
     (case getUserWallet f userId d of
        Inl err \<Rightarrow> (Inl err, d)
      | Inr (wallet, d1, f1) \<Rightarrow>
          if \<not> list_ex (\<lambda>m. pm_id m = methodId) (w_paymentMethods wallet)
          then (Inl (Not_Found ''Payment method not found''), d1)
          else
            (case Wallet_save f1 userId
                    (wallet\<lparr>w_paymentMethods :=
                       map (\<lambda>method. method\<lparr>pm_isDefault := (pm_id method = methodId)\<rparr>)
                         (w_paymentMethods wallet)\<rparr>) d1 of
               None \<Rightarrow> (Inl (Server_Error ''Failed to set default payment method''), d1)
             | Some (d2, f2) \<Rightarrow> (Inr (), d2)))"

text \<open>
  \<open>POST /wallet/:userId/deposit\<close> and \<open>POST /wallet/:userId/withdraw\<close>. The body's
  \<open>amount\<close> is \<open>None\<close> when absent; \<open>currency\<close> defaults to \<open>'TND'\<close> when absent.
\<close>

record transfer_body =
  tb_amount :: "rat option"
  tb_paymentMethodId :: string
  tb_currency :: "string option"

definition default_currency :: "string option \<Rightarrow> string" where
  "default_currency c = (case c of None \<Rightarrow> ''TND'' | Some s \<Rightarrow> s)"

text \<open>\<open>!amount || amount <= 0\<close>\<close>

definition amount_rejected :: "rat option \<Rightarrow> bool" where
  "amount_rejected a = (case a of None \<Rightarrow> True | Some x \<Rightarrow> x = 0 \<or> x \<le> 0)"

definition deposit ::
  "fault \<Rightarrow> user_id \<Rightarrow> transfer_body \<Rightarrow> db \<Rightarrow> (error + transaction \<times> rat) \<times> db" where
  "deposit f userId body d =
     (case getUserWallet f userId d of
        Inl err \<Rightarrow> (Inl err, d)
      | Inr (wallet, d1, f1) \<Rightarrow>
          if amount_rejected (tb_amount body)
          then (Inl (Bad_Request ''Valid amount is required''), d1)
          else if tb_paymentMethodId body = []
          then (Inl (Bad_Request ''Payment method ID is required''), d1)
          else if find (\<lambda>m. pm_id m = tb_paymentMethodId body) (w_paymentMethods wallet) = None
          then (Inl (Not_Found ''Payment method not found''), d1)
          else
            let tid = fst (new_ObjectId d1); d2 = snd (new_ObjectId d1);
                amount = the (tb_amount body);
                transaction =
                  \<lparr>t_id = tid, t_userId = userId, t_amount = amount,
                   t_currency = default_currency (tb_currency body), t_status = ''completed'',
                   t_paymentMethodId = tb_paymentMethodId body, t_type = Deposit,
                   t_description = ''Wallet deposit'', t_reference = None,
                   t_referenceModel = None\<rparr>
            in (case Transaction_save f1 transaction d2 of
                 None \<Rightarrow> (Inl (Server_Error ''Failed to process deposit''), d2)
               | Some (d3, f3) \<Rightarrow>
                   (let wallet' = wallet\<lparr>w_balance := w_balance wallet + amount,
                                        w_transactionIds := w_transactionIds wallet @ [tid]\<rparr>
                    in (case Wallet_save f3 userId wallet' d3 of
                          None \<Rightarrow> (Inl (Server_Error ''Failed to process deposit''), d3)
                        | Some (d4, f4) \<Rightarrow> (Inr (transaction, w_balance wallet'), d4)))))"

definition withdraw ::
  "fault \<Rightarrow> user_id \<Rightarrow> transfer_body \<Rightarrow> db \<Rightarrow> (error + transaction \<times> rat) \<times> db" where
  "withdraw f userId body d =
     (case getUserWallet f userId d of
        Inl err \<Rightarrow> (Inl err, d)
      | Inr (wallet, d1, f1) \<Rightarrow>
          if amount_rejected (tb_amount body)
          then (Inl (Bad_Request ''Valid amount is required''), d1)
          else if tb_paymentMethodId body = []
          then (Inl (Bad_Request ''Payment method ID is required''), d1)
          else
            let amount = the (tb_amount body);
                availableBalance = w_balance wallet - w_reservedBalance wallet
            in if amount > availableBalance
               then (Inl (Insufficient_Funds ''Insufficient funds'' availableBalance amount None),
                     d1)
               else if find (\<lambda>m. pm_id m = tb_paymentMethodId body) (w_paymentMethods wallet)
                         = None
               then (Inl (Not_Found ''Payment method not found''), d1)
               else
                 let tid = fst (new_ObjectId d1); d2 = snd (new_ObjectId d1);
                     transaction =
                       \<lparr>t_id = tid, t_userId = userId, t_amount = - amount,
                        t_currency = default_currency (tb_currency body),
                        t_status = ''completed'',
                        t_paymentMethodId = tb_paymentMethodId body, t_type = Withdrawal,
                        t_description = ''Wallet withdrawal'', t_reference = None,
                        t_referenceModel = None\<rparr>
                 in (case Transaction_save f1 transaction d2 of
                      None \<Rightarrow> (Inl (Server_Error ''Failed to process withdrawal''), d2)
                    | Some (d3, f3) \<Rightarrow>
                        (let wallet' = wallet\<lparr>w_balance := w_balance wallet - amount,
                                             w_transactionIds := w_transactionIds wallet @ [tid]\<rparr>
                         in (case Wallet_save f3 userId wallet' d3 of
                               None \<Rightarrow> (Inl (Server_Error ''Failed to process withdrawal''), d3)
                             | Some (d4, f4) \<Rightarrow>
                                 (Inr (transaction, w_balance wallet'), d4)))))"

section \<open>Escrow routes\<close>

text \<open>Helper \<open>getWallet\<close>: \<open>None\<close> when saving the new wallet throws.\<close>

definition getWallet :: "fault \<Rightarrow> user_id \<Rightarrow> db \<Rightarrow> (wallet \<times> db \<times> fault) option" where
  "getWallet f userId d =
     (case wallets d userId of
        Some wallet \<Rightarrow> Some (wallet, d, f)
      | None \<Rightarrow>
          (case Wallet_save f userId (new_Wallet ''TND'') d of
             None \<Rightarrow> None
           | Some (d', f') \<Rightarrow> Some (preSave (new_Wallet ''TND''), d', f')))"

text \<open>\<open>POST /\<close>: create and fund an escrow.\<close>

record escrow_body =
  eb_clientId :: user_id
  eb_freelancerId :: user_id
  eb_serviceId :: "string option"
  eb_serviceName :: string
  eb_description :: string
  eb_amount :: "rat option"
  eb_currency :: "string option"
  eb_paymentMethodId :: string
  eb_terms :: "string option"

record create_response =
  cr_escrowId :: object_id
  cr_escrow :: escrow
  cr_transaction :: transaction
  cr_platformFee :: rat
  cr_totalAmount :: rat

text \<open>
  The blocks of the route, under the comments the source gives them: "Create real escrow
  in MongoDB", "Create transaction", "Update client wallet - reserve the funds".
\<close>

definition new_Escrow :: "escrow_body \<Rightarrow> rat \<Rightarrow> rat \<Rightarrow> escrow" where
  "new_Escrow body amount platformFee =
     \<lparr>e_clientId = eb_clientId body, e_freelancerId = eb_freelancerId body,
      e_serviceId = eb_serviceId body, e_serviceName = eb_serviceName body,
      e_description = eb_description body, e_amount = amount,
      e_currency = default_currency (eb_currency body), e_platformFee = platformFee,
      e_paymentMethodId = eb_paymentMethodId body, e_transactionId = None,
      e_status = Created, e_deliveryMessage = None, e_deliveryFiles = [],
      e_approvalRating = None, e_approvalFeedback = None, e_disputeReason = None,
      e_terms = eb_terms body\<rparr>"

definition escrow_transaction ::
  "object_id \<Rightarrow> object_id \<Rightarrow> escrow_body \<Rightarrow> rat \<Rightarrow> transaction" where
  "escrow_transaction tid eid body totalAmount =
     \<lparr>t_id = tid, t_userId = eb_clientId body, t_amount = - totalAmount,
      t_currency = default_currency (eb_currency body), t_status = ''completed'',
      t_paymentMethodId = eb_paymentMethodId body, t_type = Escrow,
      t_description = ''Escrow payment for '' @ eb_serviceName body,
      t_reference = Some eid, t_referenceModel = Some ''Escrow''\<rparr>"

definition reserve_funds :: "object_id \<Rightarrow> object_id \<Rightarrow> rat \<Rightarrow> rat \<Rightarrow> wallet \<Rightarrow> wallet" where
  "reserve_funds eid tid amount totalAmount clientWallet =
     clientWallet
       \<lparr>w_balance := w_balance clientWallet - totalAmount,
        w_reservedBalance := w_reservedBalance clientWallet + amount,
        w_escrowReserves := w_escrowReserves clientWallet
           @ [\<lparr>r_escrowId = eid, r_amount = amount\<rparr>],
        w_transactionIds := w_transactionIds clientWallet @ [tid]\<rparr>"

definition create :: "fault \<Rightarrow> escrow_body \<Rightarrow> db \<Rightarrow> (error + create_response) \<times> db" where
  "create f body d =
     (if eb_clientId body = [] \<or> eb_freelancerId body = [] \<or> eb_serviceName body = []
         \<or> eb_description body = [] \<or> eb_amount body = None \<or> eb_amount body = Some 0
         \<or> eb_paymentMethodId body = []
      then (Inl (Bad_Request ''Missing required fields''), d)
      else
        let amount = the (eb_amount body) in
        if amount \<le> 0 then (Inl (Bad_Request ''Amount must be greater than zero''), d)
        else
          (case getWallet f (eb_clientId body) d of
             None \<Rightarrow> (Inl (Server_Error ''Failed to create escrow''), d)
           | Some (clientWallet, d1, f1) \<Rightarrow>
               let availableBalance = w_balance clientWallet - w_reservedBalance clientWallet in
               if amount > availableBalance
               then (Inl (Insufficient_Funds ''Insufficient funds'' availableBalance amount None),
                     d1)
               else
                 let platformFee = amount * (5 / 100);
                     totalAmount = amount + platformFee
                 in
                 if totalAmount > availableBalance
                 then (Inl (Insufficient_Funds
                              ''Insufficient funds to cover amount plus platform fee''
                              availableBalance totalAmount (Some platformFee)), d1)
                 else
                   let eid = fst (new_ObjectId d1); d2 = snd (new_ObjectId d1);
                       tid = fst (new_ObjectId d2); d3 = snd (new_ObjectId d2);
                       escrow = new_Escrow body amount platformFee;
                       transaction = escrow_transaction tid eid body totalAmount
                   in
                   (case Transaction_save f1 transaction d3 of
                      None \<Rightarrow> (Inl (Server_Error ''Failed to create escrow''), d3)
                    | Some (d4, f4) \<Rightarrow>
                        (let escrow' = escrow\<lparr>e_transactionId := Some tid, e_status := Funded\<rparr>
                         in
                         (case Escrow_save f4 eid escrow' d4 of
                            None \<Rightarrow> (Inl (Server_Error ''Failed to create escrow''), d4)
                          | Some (d5, f5) \<Rightarrow>
                              (let clientWallet' =
                                     reserve_funds eid tid amount totalAmount clientWallet
                               in
                               (case Wallet_save f5 (eb_clientId body) clientWallet' d5 of
                                  None \<Rightarrow> (Inl (Server_Error ''Failed to create escrow''), d5)
                                | Some (d6, f6) \<Rightarrow>
                                    (Inr \<lparr>cr_escrowId = eid, cr_escrow = escrow',
                                          cr_transaction = transaction,
                                          cr_platformFee = platformFee,
                                          cr_totalAmount = totalAmount\<rparr>, d6))))))))"

text \<open>\<open>POST /:escrowId/start\<close>\<close>

definition start :: "fault \<Rightarrow> object_id \<Rightarrow> user_id \<Rightarrow> db \<Rightarrow> (error + escrow) \<times> db" where
  "start f escrowId freelancerId d =
     (if freelancerId = [] then (Inl (Bad_Request ''Freelancer ID is required''), d)
      else case escrows d escrowId of
        None \<Rightarrow> (Inl (Not_Found ''Escrow not found''), d)
      | Some escrow \<Rightarrow>
          if e_freelancerId escrow \<noteq> freelancerId
          then (Inl (Forbidden ''Not authorized to start this escrow''), d)
          else if e_status escrow \<noteq> Funded
          then (Inl (Invalid_State ''Escrow cannot be started'' (e_status escrow) Funded), d)
          else
            (case Escrow_save f escrowId (escrow\<lparr>e_status := In_progress\<rparr>) d of
               None \<Rightarrow> (Inl (Server_Error ''Failed to start escrow''), d)
             | Some (d1, f1) \<Rightarrow> (Inr (escrow\<lparr>e_status := In_progress\<rparr>), d1)))"

text \<open>\<open>POST /:escrowId/deliver\<close>\<close>

definition deliver ::
  "fault \<Rightarrow> object_id \<Rightarrow> user_id \<Rightarrow> string \<Rightarrow> string list option \<Rightarrow> db
     \<Rightarrow> (error + escrow) \<times> db" where
  "deliver f escrowId freelancerId deliveryMessage deliveryFiles d =
     (if freelancerId = [] \<or> deliveryMessage = []
      then (Inl (Bad_Request ''Freelancer ID and delivery message are required''), d)
      else case escrows d escrowId of
        None \<Rightarrow> (Inl (Not_Found ''Escrow not found''), d)
      | Some escrow \<Rightarrow>
          if e_freelancerId escrow \<noteq> freelancerId
          then (Inl (Forbidden ''Not authorized to deliver for this escrow''), d)
          else if e_status escrow \<noteq> In_progress
          then (Inl (Invalid_State ''Escrow is not in progress'' (e_status escrow) In_progress),
                d)
          else
            let escrow' = escrow
                  \<lparr>e_status := Delivered, e_deliveryMessage := Some deliveryMessage,
                   e_deliveryFiles := (case deliveryFiles of
                                         None \<Rightarrow> e_deliveryFiles escrow
                                       | Some files \<Rightarrow> files)\<rparr>
            in (case Escrow_save f escrowId escrow' d of
                  None \<Rightarrow> (Inl (Server_Error ''Failed to deliver escrow work''), d)
                | Some (d1, f1) \<Rightarrow> (Inr escrow', d1)))"

text \<open>
  \<open>POST /:escrowId/approve\<close>. The blocks of the route, under the comments the source
  gives them: "Update escrow status", "Remove escrow reserve from client wallet", "Add
  funds to freelancer wallet", "Create transaction for payment to freelancer".
\<close>

definition update_escrow_status :: "rat option \<Rightarrow> string \<Rightarrow> escrow \<Rightarrow> escrow" where
  "update_escrow_status rating feedback escrow =
     escrow\<lparr>e_status := Approved,
            e_approvalRating :=
              (if rating \<noteq> None \<and> rating \<noteq> Some 0 then rating
               else e_approvalRating escrow),
            e_approvalFeedback :=
              (if feedback \<noteq> [] then Some feedback else e_approvalFeedback escrow)\<rparr>"

definition remove_escrow_reserve :: "object_id \<Rightarrow> wallet \<Rightarrow> wallet" where
  "remove_escrow_reserve escrowId clientWallet =
     (case findIndex (\<lambda>reserve. r_escrowId reserve = escrowId)
             (w_escrowReserves clientWallet) of
        None \<Rightarrow> clientWallet
      | Some reserveIndex \<Rightarrow>
          recalculateReservedBalance
            (clientWallet\<lparr>w_escrowReserves :=
               splice1 reserveIndex (w_escrowReserves clientWallet)\<rparr>))"

definition add_funds :: "rat \<Rightarrow> wallet \<Rightarrow> wallet" where
  "add_funds amount freelancerWallet =
     freelancerWallet\<lparr>w_balance := w_balance freelancerWallet + amount\<rparr>"

definition payment_transaction :: "object_id \<Rightarrow> object_id \<Rightarrow> escrow \<Rightarrow> transaction" where
  "payment_transaction tid escrowId escrow =
     \<lparr>t_id = tid, t_userId = e_freelancerId escrow, t_amount = e_amount escrow,
      t_currency = e_currency escrow, t_status = ''completed'',
      t_paymentMethodId = ''system_transfer'', t_type = Payment,
      t_description = ''Payment for completed work: '' @ e_serviceName escrow,
      t_reference = Some escrowId, t_referenceModel = Some ''Escrow''\<rparr>"

text \<open>
  The four saves run in one session transaction: when one of them, or the commit, throws,
  the transaction is aborted and none of its writes stays. \<open>Wallet.findOne\<close> gives
  \<open>null\<close> for a client without a wallet, and reading \<open>escrowReserves\<close> of it throws
  inside the session. A save writes the whole document; when client and freelancer are
  the same user the two wallet saves go to the same document, and the properties below
  that speak of two wallets are stated for two users.
\<close>

definition approve ::
  "fault \<Rightarrow> object_id \<Rightarrow> user_id \<Rightarrow> rat option \<Rightarrow> string \<Rightarrow> db
     \<Rightarrow> (error + escrow \<times> transaction) \<times> db" where
  "approve f escrowId clientId rating feedback d =
     (if clientId = [] then (Inl (Bad_Request ''Client ID is required''), d)
      else case escrows d escrowId of
        None \<Rightarrow> (Inl (Not_Found ''Escrow not found''), d)
      | Some escrow \<Rightarrow>
          if e_clientId escrow \<noteq> clientId
          then (Inl (Forbidden ''Not authorized to approve this escrow''), d)
          else if e_status escrow \<noteq> Delivered
          then (Inl (Invalid_State ''Escrow is not in delivered status'' (e_status escrow)
                       Delivered), d)
          else
            (case wallets d (e_clientId escrow) of
               None \<Rightarrow> (Inl (Server_Error ''Failed to approve escrow''), d)
             | Some clientWallet \<Rightarrow>
                 let freelancerWallet =
                       (case wallets d (e_freelancerId escrow) of
                          Some wallet \<Rightarrow> wallet
                        | None \<Rightarrow> new_Wallet (e_currency escrow));
                     escrow' = update_escrow_status rating feedback escrow;
                     clientWallet' = remove_escrow_reserve escrowId clientWallet;
                     freelancerWallet' = add_funds (e_amount escrow) freelancerWallet;
                     tid = fst (new_ObjectId d); d1 = snd (new_ObjectId d);
                     transaction = payment_transaction tid escrowId escrow
                 in
                 (case Transaction_save f transaction d1 of
                    None \<Rightarrow> (Inl (Server_Error ''Failed to approve escrow''), d1)
                  | Some (d2, f2) \<Rightarrow>
                  (case Escrow_save f2 escrowId escrow' d2 of
                    None \<Rightarrow> (Inl (Server_Error ''Failed to approve escrow''), d1)
                  | Some (d3, f3) \<Rightarrow>
                  (case Wallet_save f3 (e_clientId escrow) clientWallet' d3 of
                    None \<Rightarrow> (Inl (Server_Error ''Failed to approve escrow''), d1)
                  | Some (d4, f4) \<Rightarrow>
                  (case Wallet_save f4 (e_freelancerId escrow) freelancerWallet' d4 of
                    None \<Rightarrow> (Inl (Server_Error ''Failed to approve escrow''), d1)
                  | Some (d5, f5) \<Rightarrow>
                      if write_fails f5
                      then (Inl (Server_Error ''Failed to approve escrow''), d1)
                      else (Inr (escrow', transaction), d5)))))))"

text \<open>\<open>POST /:escrowId/reject\<close>\<close>

definition reject ::
  "fault \<Rightarrow> object_id \<Rightarrow> user_id \<Rightarrow> string \<Rightarrow> db \<Rightarrow> (error + escrow) \<times> db" where
  "reject f escrowId clientId reason d =
     (if clientId = [] \<or> reason = []
      then (Inl (Bad_Request ''Client ID and rejection reason are required''), d)
      else case escrows d escrowId of
        None \<Rightarrow> (Inl (Not_Found ''Escrow not found''), d)
      | Some escrow \<Rightarrow>
          if e_clientId escrow \<noteq> clientId
          then (Inl (Forbidden ''Not authorized to reject this escrow''), d)
          else if e_status escrow \<noteq> Delivered
          then (Inl (Invalid_State ''Escrow is not in delivered status'' (e_status escrow)
                       Delivered), d)
          else
            let escrow' = escrow\<lparr>e_status := Disputed, e_disputeReason := Some reason\<rparr>
            in (case Escrow_save f escrowId escrow' d of
                  None \<Rightarrow> (Inl (Server_Error ''Failed to reject escrow''), d)
                | Some (d1, f1) \<Rightarrow> (Inr escrow', d1)))"

section \<open>Runs\<close>

text \<open>
  A request to one of the routes above, and the store it leaves behind. A run is a list
  of requests served one after the other, each with its fault.
\<close>

datatype request =
  Get_Wallet user_id
  | Add_Payment_Method user_id payment_method_body
  | Remove_Payment_Method user_id string
  | Set_Default_Payment_Method user_id string
  | Deposit_Funds user_id transfer_body
  | Withdraw_Funds user_id transfer_body
  | Create_Escrow escrow_body
  | Start_Escrow object_id user_id
  | Deliver_Escrow object_id user_id string "string list option"
  | Approve_Escrow object_id user_id "rat option" string
  | Reject_Escrow object_id user_id string

fun serve :: "fault \<Rightarrow> request \<Rightarrow> db \<Rightarrow> db" where
  "serve f (Get_Wallet u) d = snd (get_wallet f u d)"
| "serve f (Add_Payment_Method u b) d = snd (add_payment_method f u b d)"
| "serve f (Remove_Payment_Method u m) d = snd (remove_payment_method f u m d)"
| "serve f (Set_Default_Payment_Method u m) d = snd (set_default_payment_method f u m d)"
| "serve f (Deposit_Funds u b) d = snd (deposit f u b d)"
| "serve f (Withdraw_Funds u b) d = snd (withdraw f u b d)"
| "serve f (Create_Escrow b) d = snd (create f b d)"
| "serve f (Start_Escrow i u) d = snd (start f i u d)"
| "serve f (Deliver_Escrow i u m fs) d = snd (deliver f i u m fs d)"
| "serve f (Approve_Escrow i u r fb) d = snd (approve f i u r fb d)"
| "serve f (Reject_Escrow i u r) d = snd (reject f i u r d)"

fun run :: "(fault \<times> request) list \<Rightarrow> db \<Rightarrow> db" where
  "run [] d = d"
| "run ((f, r) # rs) d = run rs (serve f r d)"

text \<open>The signed amounts the transaction log holds for a user, summed.\<close>

definition ledger_sum :: "user_id \<Rightarrow> transaction list \<Rightarrow> rat" where
  "ledger_sum u ts = sum_list (map t_amount (filter (\<lambda>t. t_userId t = u) ts))"

section \<open>Consistency of a store\<close>

text \<open>
  What every wallet and escrow document written by the routes satisfies: the schema
  constraints, a reserved balance equal to the sum of the reserves, reserves of positive
  amounts, escrows of positive amount.
\<close>

definition wallet_ok :: "wallet \<Rightarrow> bool" where
  "wallet_ok w \<longleftrightarrow>
     wallet_valid w
     \<and> w_reservedBalance w = sum_list (map r_amount (w_escrowReserves w))
     \<and> list_all (\<lambda>r. 0 < r_amount r) (w_escrowReserves w)"

definition wallets_ok :: "(user_id \<rightharpoonup> wallet) \<Rightarrow> bool" where
  "wallets_ok ws \<longleftrightarrow> (\<forall>u w. ws u = Some w \<longrightarrow> u \<noteq> [] \<and> wallet_ok w)"

definition escrows_ok :: "(object_id \<rightharpoonup> escrow) \<Rightarrow> bool" where
  "escrows_ok es \<longleftrightarrow> (\<forall>i e. es i = Some e \<longrightarrow> escrow_valid e \<and> 0 < e_amount e)"

definition db_ok :: "db \<Rightarrow> bool" where
  "db_ok d \<longleftrightarrow> wallets_ok (wallets d) \<and> escrows_ok (escrows d)"

text \<open>The log and the balances agree: a user's signed amounts sum to their balance.\<close>

definition balance_of :: "(user_id \<rightharpoonup> wallet) \<Rightarrow> user_id \<Rightarrow> rat" where
  "balance_of ws u = (case ws u of None \<Rightarrow> 0 | Some w \<Rightarrow> w_balance w)"

definition ledger_ok :: "db \<Rightarrow> bool" where
  "ledger_ok d \<longleftrightarrow> (\<forall>u. ledger_sum u (transactions d) = balance_of (wallets d) u)"

text \<open>
  What the session of \<open>approve\<close> needs to commit: the four documents pass validation and
  none of the five writes (four saves and the commit) is refused.
\<close>

definition approve_commits ::
  "fault \<Rightarrow> object_id \<Rightarrow> rat option \<Rightarrow> string \<Rightarrow> escrow \<Rightarrow> wallet \<Rightarrow> wallet \<Rightarrow> db \<Rightarrow> bool"
  where
  "approve_commits f escrowId rating feedback e cw fw d \<longleftrightarrow>
     transaction_valid (payment_transaction (nextId d) escrowId e)
     \<and> escrow_valid (update_escrow_status rating feedback e)
     \<and> wallet_valid (remove_escrow_reserve escrowId cw)
     \<and> e_freelancerId e \<noteq> []
     \<and> wallet_valid (add_funds (e_amount e) fw)
     \<and> no_fault_within 5 f"

section \<open>Scenarios\<close>

text \<open>Concrete stores and requests, used to run the routes on.\<close>

definition pm_visa :: payment_method where
  "pm_visa = \<lparr>pm_id = ''pm_1'', pm_type = ''credit_card'', pm_last4 = Some ''4242'',
      pm_expiryDate = Some ''12/25'', pm_name = ''Visa'', pm_isDefault = True\<rparr>"

definition wallet_1000 :: wallet where
  "wallet_1000 = \<lparr>w_balance = 1000, w_currency = ''TND'', w_reservedBalance = 0,
      w_escrowReserves = [], w_paymentMethods = [pm_visa], w_transactionIds = []\<rparr>"

definition db_1000 :: db where
  "db_1000 = \<lparr>wallets = [''client1'' \<mapsto> wallet_1000], escrows = Map.empty,
      transactions = [], nextId = 0\<rparr>"

definition body_100 :: escrow_body where
  "body_100 = \<lparr>eb_clientId = ''client1'', eb_freelancerId = ''freelancer1'',
      eb_serviceId = None, eb_serviceName = ''Logo'', eb_description = ''Logo design'',
      eb_amount = Some 100, eb_currency = None, eb_paymentMethodId = ''pm_1'',
      eb_terms = None\<rparr>"

definition body_980 :: escrow_body where
  "body_980 = body_100\<lparr>eb_amount := Some 980\<rparr>"

definition body_2000 :: escrow_body where
  "body_2000 = body_100\<lparr>eb_amount := Some 2000\<rparr>"

definition transfer_unknown_pm :: "rat \<Rightarrow> transfer_body" where
  "transfer_unknown_pm a =
     \<lparr>tb_amount = Some a, tb_paymentMethodId = ''pm_unknown'', tb_currency = None\<rparr>"

text \<open>
  The escrow of \<open>body_100\<close> created, started and delivered on \<open>db_1000\<close>; and the same
  with the store refusing the third write of the create request, the save of the client
  wallet.
\<close>

definition db_delivered :: db where
  "db_delivered =
     run [(None, Create_Escrow body_100), (None, Start_Escrow 0 ''freelancer1''),
          (None, Deliver_Escrow 0 ''freelancer1'' ''Logo attached'' None)] db_1000"

definition db_unreserved :: db where
  "db_unreserved =
     run [(Some 2, Create_Escrow body_100), (None, Start_Escrow 0 ''freelancer1''),
          (None, Deliver_Escrow 0 ''freelancer1'' ''Logo attached'' None)] db_1000"

definition escrow_delivered :: escrow where
  "escrow_delivered =
     \<lparr>e_clientId = ''client1'', e_freelancerId = ''freelancer1'', e_serviceId = None,
      e_serviceName = ''Logo'', e_description = ''Logo design'', e_amount = 100,
      e_currency = ''TND'', e_platformFee = 5, e_paymentMethodId = ''pm_1'',
      e_transactionId = Some 1, e_status = Delivered,
      e_deliveryMessage = Some ''Logo attached'', e_deliveryFiles = [],
      e_approvalRating = None, e_approvalFeedback = None, e_disputeReason = None,
      e_terms = None\<rparr>"


text \<open>
  A run from the empty store: the client adds a card, deposits 1000 with it and funds an
  escrow of 600. \<open>db_600_1\<close> and \<open>db_600_2\<close> are the stores after the first and the second
  request, \<open>wallet_370\<close> the client wallet after the third.
\<close>

definition pm_body_visa :: payment_method_body where
  "pm_body_visa = \<lparr>b_type = ''credit_card'', b_cardNumber = Some ''4242424242424242'',
      b_expiryMonth = Some ''12'', b_expiryYear = Some ''2025'', b_name = ''Visa'',
      b_isDefault = False\<rparr>"

definition deposit_1000 :: transfer_body where
  "deposit_1000 = \<lparr>tb_amount = Some 1000,
      tb_paymentMethodId = ''pm_'' @ ObjectId_toString 0, tb_currency = None\<rparr>"

definition body_600 :: escrow_body where
  "body_600 = body_100\<lparr>eb_amount := Some 600,
      eb_paymentMethodId := ''pm_'' @ ObjectId_toString 0\<rparr>"

definition run_600 :: "request list" where
  "run_600 =
     [Add_Payment_Method ''client1'' pm_body_visa, Deposit_Funds ''client1'' deposit_1000,
      Create_Escrow body_600]"

definition pm_000 :: payment_method where
  "pm_000 =
     \<lparr>pm_id = ''pm_000000000000000000000000'', pm_type = ''credit_card'',
      pm_last4 = Some ''4242'', pm_expiryDate = Some ''12/25'', pm_name = ''Visa'',
      pm_isDefault = True\<rparr>"

definition db_600_1 :: db where
  "db_600_1 =
     \<lparr>wallets = [''client1'' \<mapsto>
        \<lparr>w_balance = 0, w_currency = ''TND'', w_reservedBalance = 0, w_escrowReserves = [],
         w_paymentMethods = [pm_000], w_transactionIds = []\<rparr>],
      escrows = Map.empty, transactions = [], nextId = 1\<rparr>"

definition db_600_2 :: db where
  "db_600_2 =
     \<lparr>wallets = [''client1'' \<mapsto>
        \<lparr>w_balance = 1000, w_currency = ''TND'', w_reservedBalance = 0,
         w_escrowReserves = [], w_paymentMethods = [pm_000], w_transactionIds = [1]\<rparr>],
      escrows = Map.empty,
      transactions =
        [\<lparr>t_id = 1, t_userId = ''client1'', t_amount = 1000, t_currency = ''TND'',
          t_status = ''completed'', t_paymentMethodId = ''pm_000000000000000000000000'',
          t_type = Deposit, t_description = ''Wallet deposit'', t_reference = None,
          t_referenceModel = None\<rparr>],
      nextId = 2\<rparr>"

definition wallet_370 :: wallet where
  "wallet_370 =
     \<lparr>w_balance = 370, w_currency = ''TND'', w_reservedBalance = 600,
      w_escrowReserves = [\<lparr>r_escrowId = 2, r_amount = 600\<rparr>],
      w_paymentMethods = [pm_000], w_transactionIds = [1, 3]\<rparr>"

definition deposit_50 :: transfer_body where
  "deposit_50 = \<lparr>tb_amount = Some 50, tb_paymentMethodId = ''pm_1'', tb_currency = None\<rparr>"

section \<open>Properties\<close>

lemma sum_reserves_foldl:
  "foldl (\<lambda>total reserve. total + r_amount reserve) a rs = a + sum_list (map r_amount rs)"
  by (induction rs arbitrary: a) (simp_all add: add.assoc)

lemma sum_reserves_sum_list: "sum_reserves rs = sum_list (map r_amount rs)"
  by (simp add: sum_reserves_def sum_reserves_foldl)

text \<open>
  C9. Saving a wallet recomputes \<open>reservedBalance\<close> as the sum of the reserve amounts
  when \<open>escrowReserves\<close> is non-empty, and only then: with no reserves the stored
  \<open>reservedBalance\<close> stays as it is, whatever its value; no other field is touched.
\<close>

theorem preSave_recomputes_only_when_nonempty:
  "(w_escrowReserves w \<noteq> [] \<longrightarrow>
      w_reservedBalance (preSave w) = sum_list (map r_amount (w_escrowReserves w)))
   \<and> (w_escrowReserves w = [] \<longrightarrow> preSave w = w)
   \<and> w_escrowReserves (preSave w) = w_escrowReserves w
   \<and> w_balance (preSave w) = w_balance w"
  by (simp add: preSave_def recalculateReservedBalance_def sum_reserves_sum_list)

theorem preSave_recomputes_only_when_nonempty_witness:
  "w_reservedBalance
     (preSave \<lparr>w_balance = 500, w_currency = ''TND'', w_reservedBalance = 0,
        w_escrowReserves = [\<lparr>r_escrowId = 1, r_amount = 30\<rparr>, \<lparr>r_escrowId = 2, r_amount = 12\<rparr>],
        w_paymentMethods = [], w_transactionIds = []\<rparr>) = 42
   \<and> preSave \<lparr>w_balance = 500, w_currency = ''TND'', w_reservedBalance = 100,
        w_escrowReserves = [], w_paymentMethods = [], w_transactionIds = []\<rparr>
     = \<lparr>w_balance = 500, w_currency = ''TND'', w_reservedBalance = 100,
        w_escrowReserves = [], w_paymentMethods = [], w_transactionIds = []\<rparr>"
  using preSave_recomputes_only_when_nonempty
          [of "\<lparr>w_balance = 500, w_currency = ''TND'', w_reservedBalance = 0,
                w_escrowReserves = [\<lparr>r_escrowId = 1, r_amount = 30\<rparr>,
                                    \<lparr>r_escrowId = 2, r_amount = 12\<rparr>],
                w_paymentMethods = [], w_transactionIds = []\<rparr>"]
        preSave_recomputes_only_when_nonempty
          [of "\<lparr>w_balance = 500, w_currency = ''TND'', w_reservedBalance = 100,
                w_escrowReserves = [], w_paymentMethods = [], w_transactionIds = []\<rparr>"]
  by simp

lemmas store_defs = Wallet_save_def Escrow_save_def Transaction_save_def write_fails_def
  after_write_def new_ObjectId_def wallet_valid_def escrow_valid_def transaction_valid_def
  rating_valid_def preSave_def recalculateReservedBalance_def sum_reserves_def

lemmas create_blocks = new_Escrow_def escrow_transaction_def reserve_funds_def

lemmas scenario_defs = pm_visa_def wallet_1000_def db_1000_def body_100_def body_980_def
  body_2000_def transfer_unknown_pm_def payment_method_valid_def

subsection \<open>What fetching a wallet does to the store\<close>

lemma getUserWallet_effect:
  assumes "getUserWallet f u d = Inr (w, d1, f1)"
  shows "u \<noteq> [] \<and> transactions d1 = transactions d \<and> escrows d1 = escrows d
     \<and> nextId d1 = nextId d
     \<and> (case wallets d u of
           Some w0 \<Rightarrow> w = w0 \<and> d1 = d \<and> f1 = f
         | None \<Rightarrow> w = new_Wallet ''TND'' \<and> f \<noteq> Some 0
             \<and> d1 = d\<lparr>wallets := (wallets d)(u \<mapsto> new_Wallet ''TND'')\<rparr>)"
  using assms
  by (auto simp: getUserWallet_def Wallet_save_def preSave_def new_Wallet_def write_fails_def
      split: if_splits option.splits)


subsection \<open>Creating an escrow\<close>

text \<open>
  C5. A client wallet with balance 1000 and no reserves, and a well-formed create request
  of amount 100 whose writes all go through: the request succeeds with platform fee 5 and
  total 105, the stored escrow is \<open>funded\<close>, and the client wallet is left with balance
  895, reserved balance 100 and available balance 795.
\<close>

theorem create_scenario:
  assumes w: "wallets d (eb_clientId body) = Some w"
    and bal: "w_balance w = 1000" "w_reservedBalance w = 0" "w_escrowReserves w = []"
    and wv: "wallet_valid w"
    and body: "eb_clientId body \<noteq> []" "eb_freelancerId body \<noteq> []"
      "eb_serviceName body \<noteq> []" "eb_description body \<noteq> []"
      "eb_paymentMethodId body \<noteq> []" "eb_currency body \<noteq> Some []"
    and amt: "eb_amount body = Some 100"
  shows "\<exists>r d' w'. create None body d = (Inr r, d')
      \<and> cr_platformFee r = 5 \<and> cr_totalAmount r = 105
      \<and> e_status (cr_escrow r) = Funded \<and> e_amount (cr_escrow r) = 100
      \<and> escrows d' (cr_escrowId r) = Some (cr_escrow r)
      \<and> wallets d' (eb_clientId body) = Some w'
      \<and> w_balance w' = 895 \<and> w_reservedBalance w' = 100 \<and> getAvailableBalance w' = 795"
proof -
  have cur: "default_currency (eb_currency body) \<noteq> []"
    using body(6) by (cases "eb_currency body") (simp_all add: default_currency_def)
  show ?thesis
    using assms cur
    by (simp add: create_def getWallet_def Let_def store_defs create_blocks
        getAvailableBalance_def)
qed

theorem create_scenario_witness:
  "\<exists>r d' w'. create None body_100 db_1000 = (Inr r, d')
      \<and> cr_platformFee r = 5 \<and> cr_totalAmount r = 105
      \<and> e_status (cr_escrow r) = Funded \<and> e_amount (cr_escrow r) = 100
      \<and> escrows d' (cr_escrowId r) = Some (cr_escrow r)
      \<and> wallets d' ''client1'' = Some w'
      \<and> w_balance w' = 895 \<and> w_reservedBalance w' = 100 \<and> getAvailableBalance w' = 795"
  using create_scenario [of db_1000 body_100 wallet_1000]
  by (simp add: scenario_defs wallet_valid_def)




subsection \<open>Deposit and withdraw\<close>

text \<open>
  C7, as stated, fails on the kind of the error: a \<open>paymentMethodId\<close> that names no
  method of the wallet is answered with status 404, \<open>Payment method not found\<close>, which is
  a NotFoundError and not a ValidationError.
\<close>

theorem deposit_unknown_method_counterexample:
  "deposit None ''client1'' (transfer_unknown_pm 50) db_1000 =
     (Inl (Not_Found ''Payment method not found''), db_1000)"
  by (simp add: deposit_def getUserWallet_def scenario_defs amount_rejected_def)

text \<open>
  C7, amended. Once the caller's wallet is fetched, deposit answers 400 (ValidationError)
  when the amount is absent, zero or negative, 400 when \<open>paymentMethodId\<close> is absent, and
  404 (NotFoundError) when \<open>paymentMethodId\<close> names no method of the wallet. In each of
  these cases the store is as fetching the wallet left it: no transaction is appended and
  no existing wallet changes (a caller without a wallet has got a zero-balance one).
\<close>

theorem deposit_rejections:
  assumes "getUserWallet f userId d = Inr (w, d1, f1)"
  shows "(amount_rejected (tb_amount body) \<longrightarrow>
            deposit f userId body d = (Inl (Bad_Request ''Valid amount is required''), d1))
     \<and> (\<not> amount_rejected (tb_amount body) \<and> tb_paymentMethodId body = [] \<longrightarrow>
            deposit f userId body d = (Inl (Bad_Request ''Payment method ID is required''), d1))
     \<and> (\<not> amount_rejected (tb_amount body) \<and> tb_paymentMethodId body \<noteq> []
          \<and> find (\<lambda>m. pm_id m = tb_paymentMethodId body) (w_paymentMethods w) = None \<longrightarrow>
            deposit f userId body d = (Inl (Not_Found ''Payment method not found''), d1))
     \<and> transactions d1 = transactions d \<and> escrows d1 = escrows d
     \<and> (\<forall>u w0. wallets d u = Some w0 \<longrightarrow> wallets d1 u = Some w0)
     \<and> (wallets d userId = None \<longrightarrow> wallets d1 userId = Some (new_Wallet ''TND''))"
  using assms getUserWallet_effect [OF assms]
  by (auto simp: deposit_def split: option.splits)

theorem deposit_rejections_witness:
  "deposit None ''client1'' (transfer_unknown_pm 50) db_1000 =
     (Inl (Not_Found ''Payment method not found''), db_1000)
  \<and> deposit None ''client1'' (transfer_unknown_pm (- 5)) db_1000 =
     (Inl (Bad_Request ''Valid amount is required''), db_1000)
  \<and> deposit None ''client1'' ((transfer_unknown_pm 50)\<lparr>tb_paymentMethodId := []\<rparr>) db_1000 =
     (Inl (Bad_Request ''Payment method ID is required''), db_1000)
  \<and> snd (deposit None ''nobody'' ((transfer_unknown_pm 50)\<lparr>tb_amount := None\<rparr>) db_1000)
      = db_1000\<lparr>wallets := (wallets db_1000)(''nobody'' \<mapsto> new_Wallet ''TND'')\<rparr>"
  using
    deposit_rejections [of None "''client1''" db_1000 wallet_1000 db_1000 None
      "transfer_unknown_pm 50"]
    deposit_rejections [of None "''client1''" db_1000 wallet_1000 db_1000 None
      "transfer_unknown_pm (- 5)"]
    deposit_rejections [of None "''client1''" db_1000 wallet_1000 db_1000 None
      "(transfer_unknown_pm 50)\<lparr>tb_paymentMethodId := []\<rparr>"]
    deposit_rejections [of None "''nobody''" db_1000 "new_Wallet ''TND''"
      "db_1000\<lparr>wallets := (wallets db_1000)(''nobody'' \<mapsto> new_Wallet ''TND'')\<rparr>" None
      "(transfer_unknown_pm 50)\<lparr>tb_amount := None\<rparr>"]
  by (simp add: getUserWallet_def scenario_defs amount_rejected_def store_defs new_Wallet_def)



subsection \<open>Every route keeps the store consistent\<close>

lemma sum_list_pos_nonneg:
  "list_all (\<lambda>r. 0 < r_amount r) rs \<Longrightarrow> 0 \<le> sum_list (map r_amount rs)"
  by (induction rs) auto

lemma wallet_ok_preSaveI:
  assumes "wallet_valid w" "list_all (\<lambda>r. 0 < r_amount r) (w_escrowReserves w)"
    "w_escrowReserves w = [] \<longrightarrow> w_reservedBalance w = 0"
  shows "wallet_ok (preSave w)"
  using assms sum_list_pos_nonneg [OF assms(2)]
  by (auto simp: wallet_ok_def wallet_valid_def preSave_def recalculateReservedBalance_def
      sum_reserves_sum_list)

lemma wallet_ok_sound:
  "wallet_ok w \<Longrightarrow> list_all (\<lambda>r. 0 < r_amount r) (w_escrowReserves w)
     \<and> (w_escrowReserves w = [] \<longrightarrow> w_reservedBalance w = 0)"
  by (auto simp: wallet_ok_def)

lemma wallet_ok_preSave: "wallet_ok w \<Longrightarrow> preSave w = w"
  by (simp add: wallet_ok_def preSave_def recalculateReservedBalance_def sum_reserves_sum_list)

lemma wallets_ok_upd: "wallets_ok ws \<Longrightarrow> u \<noteq> [] \<Longrightarrow> wallet_ok w \<Longrightarrow> wallets_ok (ws(u \<mapsto> w))"
  by (simp add: wallets_ok_def)

lemma escrows_ok_upd:
  "escrows_ok es \<Longrightarrow> escrow_valid e \<Longrightarrow> 0 < e_amount e \<Longrightarrow> escrows_ok (es(i \<mapsto> e))"
  by (simp add: escrows_ok_def)

lemma wallets_okD: "wallets_ok ws \<Longrightarrow> ws u = Some w \<Longrightarrow> u \<noteq> [] \<and> wallet_ok w"
  by (simp add: wallets_ok_def)

lemma escrows_okD: "escrows_ok es \<Longrightarrow> es i = Some e \<Longrightarrow> escrow_valid e \<and> 0 < e_amount e"
  by (simp add: escrows_ok_def)

lemma new_Wallet_ok: "c \<noteq> [] \<Longrightarrow> wallet_ok (new_Wallet c)"
  by (simp add: wallet_ok_def wallet_valid_def new_Wallet_def)

lemma Wallet_save_ok:
  assumes "db_ok d" "Wallet_save f u w d = Some (d', f')"
    "list_all (\<lambda>r. 0 < r_amount r) (w_escrowReserves w)"
    "w_escrowReserves w = [] \<longrightarrow> w_reservedBalance w = 0"
  shows "db_ok d'"
  using assms
  by (auto simp: Wallet_save_def db_ok_def split: if_splits
      intro!: wallets_ok_upd wallet_ok_preSaveI)

lemma Escrow_save_ok:
  assumes "db_ok d" "Escrow_save f i e d = Some (d', f')" "0 < e_amount e"
  shows "db_ok d'"
  using assms
  by (auto simp: Escrow_save_def db_ok_def split: if_splits intro!: escrows_ok_upd)

lemma Transaction_save_ok:
  assumes "db_ok d" "Transaction_save f t d = Some (d', f')"
  shows "db_ok d'"
  using assms by (auto simp: Transaction_save_def db_ok_def split: if_splits)

lemma db_ok_nextId [simp]: "db_ok (d\<lparr>nextId := n\<rparr>) = db_ok d"
  by (simp add: db_ok_def)

lemma getUserWallet_ok:
  assumes "db_ok d" "getUserWallet f u d = Inr (w, d1, f1)"
  shows "db_ok d1 \<and> wallet_ok w \<and> u \<noteq> [] \<and> wallets d1 u = Some w"
  using assms
  by (auto simp: getUserWallet_def Wallet_save_def db_ok_def new_Wallet_ok wallet_ok_preSave
      split: if_splits option.splits intro!: wallets_ok_upd dest: wallets_okD)

lemma getWallet_ok:
  assumes "db_ok d" "getWallet f u d = Some (w, d1, f1)"
  shows "db_ok d1 \<and> wallet_ok w \<and> u \<noteq> [] \<and> wallets d1 u = Some w"
  using assms
  by (auto simp: getWallet_def Wallet_save_def db_ok_def new_Wallet_ok wallet_ok_preSave
      split: if_splits option.splits intro!: wallets_ok_upd dest: wallets_okD)

lemma get_wallet_ok: "db_ok d \<Longrightarrow> db_ok (snd (get_wallet f u d))"
  by (auto simp: get_wallet_def split: sum.splits dest: getUserWallet_ok)

lemma deposit_ok:
  assumes "db_ok d"
  shows "db_ok (snd (deposit f u body d))"
proof (cases "getUserWallet f u d")
  case (Inl e)
  then show ?thesis using assms by (simp add: deposit_def)
next
  case (Inr r)
  then obtain w d1 f1 where g: "getUserWallet f u d = Inr (w, d1, f1)" by (cases r) auto
  from getUserWallet_ok [OF assms g] wallet_ok_sound [of w]
  show ?thesis
    by (auto simp: deposit_def g Let_def new_ObjectId_def split: option.splits
        dest!: Transaction_save_ok [rotated] elim!: Wallet_save_ok [rotated])
qed


lemma withdraw_ok:
  assumes "db_ok d"
  shows "db_ok (snd (withdraw f u body d))"
proof (cases "getUserWallet f u d")
  case (Inl e)
  then show ?thesis using assms by (simp add: withdraw_def)
next
  case (Inr r)
  then obtain w d1 f1 where g: "getUserWallet f u d = Inr (w, d1, f1)" by (cases r) auto
  from getUserWallet_ok [OF assms g] wallet_ok_sound [of w]
  show ?thesis
    by (auto simp: withdraw_def g Let_def new_ObjectId_def split: option.splits
        dest!: Transaction_save_ok [rotated] elim!: Wallet_save_ok [rotated])
qed



lemma Wallet_save_pm_ok:
  assumes "db_ok d" "wallet_ok w" "Wallet_save f u (w\<lparr>w_paymentMethods := pms\<rparr>) d = Some (d', f')"
  shows "db_ok d'"
  using assms(1,3) wallet_ok_sound [OF assms(2)]
  by (auto elim!: Wallet_save_ok [rotated])

lemma add_payment_method_cases:
  assumes g: "getUserWallet f u d = Inr (w, d1, f1)"
  shows "snd (add_payment_method f u body d) = d1
     \<or> snd (add_payment_method f u body d) = d1\<lparr>nextId := Suc (nextId d1)\<rparr>
     \<or> (\<exists>pms d' f'. Wallet_save f1 u (w\<lparr>w_paymentMethods := pms\<rparr>)
                        (d1\<lparr>nextId := Suc (nextId d1)\<rparr>) = Some (d', f')
            \<and> snd (add_payment_method f u body d) = d')"
proof (cases "b_type body = []")
  case True
  then show ?thesis by (simp add: add_payment_method_def g)
next
  case False
  show ?thesis
  proof (cases "if b_type body = ''credit_card'' then b_expiryYear body else Some []")
    case None
    with False show ?thesis
      by (simp add: add_payment_method_def g Let_def new_ObjectId_def split del: if_split)
  next
    case (Some y)
    with False show ?thesis
      apply (simp add: add_payment_method_def g Let_def new_ObjectId_def split del: if_split)
      apply (simp split: option.splits split del: if_split)
      apply blast
      done
  qed
qed

lemma add_payment_method_ok:
  assumes "db_ok d"
  shows "db_ok (snd (add_payment_method f u body d))"
proof (cases "getUserWallet f u d")
  case (Inl e)
  then show ?thesis using assms by (simp add: add_payment_method_def)
next
  case (Inr r)
  then obtain w d1 f1 where g: "getUserWallet f u d = Inr (w, d1, f1)" by (cases r) auto
  from getUserWallet_ok [OF assms g] have ok1: "db_ok d1" "wallet_ok w" by auto
  from add_payment_method_cases [OF g, of body] show ?thesis
    using ok1 by (auto dest: Wallet_save_pm_ok [rotated 2])
qed



lemma remove_payment_method_ok:
  assumes "db_ok d"
  shows "db_ok (snd (remove_payment_method f u m d))"
proof (cases "getUserWallet f u d")
  case (Inl e)
  then show ?thesis using assms by (simp add: remove_payment_method_def)
next
  case (Inr r)
  then obtain w d1 f1 where g: "getUserWallet f u d = Inr (w, d1, f1)" by (cases r) auto
  from getUserWallet_ok [OF assms g] wallet_ok_sound [of w]
  show ?thesis
    by (auto simp: remove_payment_method_def g Let_def split: option.splits if_splits
        elim!: Wallet_save_ok [rotated])
qed



lemma set_default_payment_method_ok:
  assumes "db_ok d"
  shows "db_ok (snd (set_default_payment_method f u m d))"
proof (cases "getUserWallet f u d")
  case (Inl e)
  then show ?thesis using assms by (simp add: set_default_payment_method_def)
next
  case (Inr r)
  then obtain w d1 f1 where g: "getUserWallet f u d = Inr (w, d1, f1)" by (cases r) auto
  from getUserWallet_ok [OF assms g] wallet_ok_sound [of w]
  show ?thesis
    by (auto simp: set_default_payment_method_def g Let_def split: option.splits if_splits
        elim!: Wallet_save_ok [rotated])
qed



lemma start_ok: "db_ok d \<Longrightarrow> db_ok (snd (start f i u d))"
  by (auto simp: start_def db_ok_def split: option.splits
      dest: escrows_okD elim!: Escrow_save_ok [unfolded db_ok_def, rotated 1])



lemma deliver_ok: "db_ok d \<Longrightarrow> db_ok (snd (deliver f i u m fs d))"
  by (auto simp: deliver_def Let_def db_ok_def split: option.splits
      dest: escrows_okD elim!: Escrow_save_ok [unfolded db_ok_def, rotated 1])



lemma reject_ok: "db_ok d \<Longrightarrow> db_ok (snd (reject f i u r d))"
  by (auto simp: reject_def Let_def db_ok_def split: option.splits
      dest: escrows_okD elim!: Escrow_save_ok [unfolded db_ok_def, rotated 1])


lemma fault_chain:
  "f \<noteq> Some 0 \<and> after_write f \<noteq> Some 0 \<and> after_write (after_write f) \<noteq> Some 0
     \<and> after_write (after_write (after_write f)) \<noteq> Some 0
     \<and> \<not> write_fails (after_write (after_write (after_write (after_write f))))
   \<longleftrightarrow> no_fault_within 5 f"
  by (cases f) (auto simp: after_write_def write_fails_def no_fault_within_def)

lemma approve_eq:
  assumes "clientId \<noteq> []" "escrows d escrowId = Some e" "e_clientId e = clientId"
    "e_status e = Delivered" "wallets d clientId = Some cw"
    and fw: "fw = (case wallets d (e_freelancerId e) of
                   Some wallet \<Rightarrow> wallet | None \<Rightarrow> new_Wallet (e_currency e))"
  shows "approve f escrowId clientId rating feedback d =
     (if approve_commits f escrowId rating feedback e cw fw d
      then (Inr (update_escrow_status rating feedback e,
                 payment_transaction (nextId d) escrowId e),
            d\<lparr>nextId := Suc (nextId d),
               transactions := transactions d @ [payment_transaction (nextId d) escrowId e],
               escrows := (escrows d)(escrowId \<mapsto> update_escrow_status rating feedback e),
               wallets := (wallets d)
                 (clientId \<mapsto> preSave (remove_escrow_reserve escrowId cw),
                  e_freelancerId e \<mapsto> preSave (add_funds (e_amount e) fw))\<rparr>)
      else (Inl (Server_Error ''Failed to approve escrow''), d\<lparr>nextId := Suc (nextId d)\<rparr>))"
  using assms(1-5) fault_chain [of f] unfolding fw approve_commits_def
  by (auto simp: approve_def Let_def new_ObjectId_def Transaction_save_def Escrow_save_def
      Wallet_save_def write_fails_def)

lemma approve_not_reached:
  assumes "\<not> (clientId \<noteq> [] \<and> (\<exists>e cw. escrows d escrowId = Some e \<and> e_clientId e = clientId
           \<and> e_status e = Delivered \<and> wallets d clientId = Some cw))"
  shows "\<exists>err. approve f escrowId clientId rating feedback d = (Inl err, d)"
proof (cases "clientId = []")
  case True
  then show ?thesis by (simp add: approve_def)
next
  case c: False
  show ?thesis
  proof (cases "escrows d escrowId")
    case None
    with c show ?thesis by (simp add: approve_def)
  next
    case (Some e)
    show ?thesis
    proof (cases "e_clientId e = clientId")
      case False
      with c Some show ?thesis by (simp add: approve_def)
    next
      case ce: True
      show ?thesis
      proof (cases "e_status e = Delivered")
        case False
        with c Some ce show ?thesis by (simp add: approve_def)
      next
        case True
        with assms c Some ce have "wallets d clientId = None" by auto
        with c Some ce True show ?thesis by (simp add: approve_def)
      qed
    qed
  qed
qed

lemma splice1_list_all: "list_all P xs \<Longrightarrow> list_all P (splice1 i xs)"
  by (auto simp: splice1_def list_all_iff dest: in_set_takeD in_set_dropD)

lemma remove_escrow_reserve_sound:
  assumes "wallet_ok w"
  shows "list_all (\<lambda>r. 0 < r_amount r) (w_escrowReserves (remove_escrow_reserve i w))
     \<and> (w_escrowReserves (remove_escrow_reserve i w) = [] \<longrightarrow>
          w_reservedBalance (remove_escrow_reserve i w) = 0)"
  using assms
  by (auto simp: remove_escrow_reserve_def wallet_ok_def recalculateReservedBalance_def
      sum_reserves_sum_list splice1_list_all split: option.splits)

lemma add_funds_sound:
  assumes "wallet_ok w"
  shows "list_all (\<lambda>r. 0 < r_amount r) (w_escrowReserves (add_funds a w))
     \<and> (w_escrowReserves (add_funds a w) = [] \<longrightarrow> w_reservedBalance (add_funds a w) = 0)"
  using assms by (auto simp: add_funds_def wallet_ok_def)

lemma approve_ok:
  assumes ok: "db_ok d"
  shows "db_ok (snd (approve f escrowId clientId rating feedback d))"
proof (cases "clientId \<noteq> [] \<and> (\<exists>e cw. escrows d escrowId = Some e \<and> e_clientId e = clientId
           \<and> e_status e = Delivered \<and> wallets d clientId = Some cw)")
  case False
  from approve_not_reached [OF this, of f rating feedback] ok show ?thesis by auto
next
  case True
  then obtain e cw where pre: "clientId \<noteq> []" "escrows d escrowId = Some e"
    "e_clientId e = clientId" "e_status e = Delivered" "wallets d clientId = Some cw"
    by blast
  define fw where "fw = (case wallets d (e_freelancerId e) of
                   Some wallet \<Rightarrow> wallet | None \<Rightarrow> new_Wallet (e_currency e))"
  note eq = approve_eq [OF pre fw_def, of f rating feedback]
  show ?thesis
  proof (cases "approve_commits f escrowId rating feedback e cw fw d")
    case False
    with eq ok show ?thesis by simp
  next
    case True
    from ok pre(5) have cwok: "wallet_ok cw" by (auto simp: db_ok_def dest: wallets_okD)
    from ok pre(2) have epos: "0 < e_amount e" and ev: "escrow_valid e"
      by (auto simp: db_ok_def dest: escrows_okD)
    have fwok: "wallet_ok fw"
    proof (cases "wallets d (e_freelancerId e)")
      case None
      with ev show ?thesis by (simp add: fw_def new_Wallet_ok escrow_valid_def)
    next
      case (Some w)
      with ok show ?thesis by (auto simp: fw_def db_ok_def dest: wallets_okD)
    qed
    have c1: "wallet_ok (preSave (remove_escrow_reserve escrowId cw))"
      using True remove_escrow_reserve_sound [OF cwok, of escrowId]
      by (intro wallet_ok_preSaveI) (simp_all add: approve_commits_def)
    have c2: "wallet_ok (preSave (add_funds (e_amount e) fw))"
      using True add_funds_sound [OF fwok, of "e_amount e"]
      by (intro wallet_ok_preSaveI) (simp_all add: approve_commits_def)
    have c3: "escrow_valid (update_escrow_status rating feedback e)"
      "0 < e_amount (update_escrow_status rating feedback e)" "e_freelancerId e \<noteq> []"
      using True epos by (simp_all add: approve_commits_def update_escrow_status_def)
    show ?thesis
      using ok pre(1) c1 c2 c3
      by (simp add: eq True db_ok_def wallets_ok_upd escrows_ok_upd)
  qed
qed

lemma create_rejected:
  assumes "eb_clientId body = [] \<or> eb_freelancerId body = [] \<or> eb_serviceName body = []
         \<or> eb_description body = [] \<or> eb_amount body = None \<or> eb_amount body = Some 0
         \<or> eb_paymentMethodId body = [] \<or> the (eb_amount body) \<le> 0
         \<or> getWallet f (eb_clientId body) d = None"
  shows "\<exists>err. create f body d = (Inl err, d)"
  using assms by (auto simp: create_def Let_def)

lemma create_eq:
  assumes body: "eb_clientId body \<noteq> []" "eb_freelancerId body \<noteq> []"
      "eb_serviceName body \<noteq> []" "eb_description body \<noteq> []"
      "eb_paymentMethodId body \<noteq> []"
    and amt: "eb_amount body = Some a" "0 < a"
    and gw: "getWallet f (eb_clientId body) d = Some (cw, d1, f1)"
    and funds: "\<not> a + a * (5 / 100) > w_balance cw - w_reservedBalance cw"
  shows "create f body d =
    (case Transaction_save f1
            (escrow_transaction (Suc (nextId d1)) (nextId d1) body (a + a * (5 / 100)))
            (d1\<lparr>nextId := Suc (Suc (nextId d1))\<rparr>) of
       None \<Rightarrow> (Inl (Server_Error ''Failed to create escrow''),
                 d1\<lparr>nextId := Suc (Suc (nextId d1))\<rparr>)
     | Some (d4, f4) \<Rightarrow>
      (case Escrow_save f4 (nextId d1)
              ((new_Escrow body a (a * (5 / 100)))
                 \<lparr>e_transactionId := Some (Suc (nextId d1)), e_status := Funded\<rparr>) d4 of
         None \<Rightarrow> (Inl (Server_Error ''Failed to create escrow''), d4)
       | Some (d5, f5) \<Rightarrow>
        (case Wallet_save f5 (eb_clientId body)
                (reserve_funds (nextId d1) (Suc (nextId d1)) a (a + a * (5 / 100)) cw) d5 of
           None \<Rightarrow> (Inl (Server_Error ''Failed to create escrow''), d5)
         | Some (d6, f6) \<Rightarrow>
             (Inr \<lparr>cr_escrowId = nextId d1,
                   cr_escrow = (new_Escrow body a (a * (5 / 100)))
                      \<lparr>e_transactionId := Some (Suc (nextId d1)), e_status := Funded\<rparr>,
                   cr_transaction =
                     escrow_transaction (Suc (nextId d1)) (nextId d1) body (a + a * (5 / 100)),
                   cr_platformFee = a * (5 / 100),
                   cr_totalAmount = a + a * (5 / 100)\<rparr>, d6))))"
proof -
  have "\<not> a > w_balance cw - w_reservedBalance cw" using funds amt(2) by simp
  then show ?thesis
    using body amt gw funds
    by (simp add: create_def Let_def new_ObjectId_def split: option.splits)
qed

lemma reserve_funds_sound:
  assumes "wallet_ok w" "0 < a"
  shows "list_all (\<lambda>r. 0 < r_amount r) (w_escrowReserves (reserve_funds i t a b w))
     \<and> (w_escrowReserves (reserve_funds i t a b w) = [] \<longrightarrow>
          w_reservedBalance (reserve_funds i t a b w) = 0)"
  using assms by (auto simp: reserve_funds_def wallet_ok_def)

lemma create_ok:
  assumes ok: "db_ok d"
  shows "db_ok (snd (create f body d))"
proof (cases "eb_clientId body = [] \<or> eb_freelancerId body = [] \<or> eb_serviceName body = []
         \<or> eb_description body = [] \<or> eb_amount body = None \<or> eb_amount body = Some 0
         \<or> eb_paymentMethodId body = [] \<or> the (eb_amount body) \<le> 0
         \<or> getWallet f (eb_clientId body) d = None")
  case True
  from create_rejected [OF this] ok show ?thesis by auto
next
  case False
  then obtain a cw d1 f1 where
    body: "eb_clientId body \<noteq> []" "eb_freelancerId body \<noteq> []"
      "eb_serviceName body \<noteq> []" "eb_description body \<noteq> []"
      "eb_paymentMethodId body \<noteq> []"
    and amt: "eb_amount body = Some a" "0 < a"
    and gw: "getWallet f (eb_clientId body) d = Some (cw, d1, f1)"
    by (cases "eb_amount body"; cases "getWallet f (eb_clientId body) d") auto
  from getWallet_ok [OF ok gw] have ok1: "db_ok d1" and cwok: "wallet_ok cw" by auto
  show ?thesis
  proof (cases "a + a * (5 / 100) > w_balance cw - w_reservedBalance cw")
    case True
    then show ?thesis
      using body amt gw ok1 by (auto simp: create_def Let_def)
  next
    case False
    note eq = create_eq [OF body amt gw False]
    have ok3: "db_ok (d1\<lparr>nextId := Suc (Suc (nextId d1))\<rparr>)" using ok1 by simp
    show ?thesis
      unfolding eq using ok3 amt(2) reserve_funds_sound [OF cwok amt(2)]
      by (auto split: option.splits simp: new_Escrow_def
          dest!: Transaction_save_ok [rotated] Escrow_save_ok [rotated]
          elim!: Wallet_save_ok [rotated])
  qed
qed

lemma serve_ok: "db_ok d \<Longrightarrow> db_ok (serve f r d)"
  by (cases r)
    (simp_all add: get_wallet_ok add_payment_method_ok remove_payment_method_ok
      set_default_payment_method_ok deposit_ok withdraw_ok create_ok start_ok deliver_ok
      approve_ok reject_ok)

lemma run_ok: "db_ok d \<Longrightarrow> db_ok (run rs d)"
  by (induction rs arbitrary: d) (auto simp: serve_ok)

lemma empty_db_ok: "db_ok empty_db"
  by (simp add: db_ok_def empty_db_def wallets_ok_def escrows_ok_def)

lemma db_1000_ok: "db_ok db_1000"
  by (simp add: db_ok_def wallets_ok_def escrows_ok_def wallet_ok_def wallet_valid_def
      scenario_defs)

subsection \<open>Without refused writes, every route keeps log and balances in agreement\<close>

lemma preSave_fields [simp]:
  "w_balance (preSave w) = w_balance w"
  "w_escrowReserves (preSave w) = w_escrowReserves w"
  "w_paymentMethods (preSave w) = w_paymentMethods w"
  "w_currency (preSave w) = w_currency w"
  "w_transactionIds (preSave w) = w_transactionIds w"
  by (simp_all add: preSave_def recalculateReservedBalance_def)

lemma ledger_sum_append [simp]:
  "ledger_sum u (ts @ [t]) = ledger_sum u ts + (if t_userId t = u then t_amount t else 0)"
  by (simp add: ledger_sum_def)

lemma balance_of_upd [simp]:
  "balance_of (ws(u \<mapsto> w)) v = (if v = u then w_balance w else balance_of ws v)"
  by (simp add: balance_of_def)



lemma ledger_ok_nextId [simp]: "ledger_ok (d\<lparr>nextId := n\<rparr>) = ledger_ok d"
  by (simp add: ledger_ok_def)





















subsection \<open>The scenario runs, evaluated\<close>

lemma ObjectId_toString_0: "ObjectId_toString 0 = ''000000000000000000000000''"
proof -
  have "ObjectId_toString 0 = map (\<lambda>k. CHR ''0'') (rev [0..<24])"
    by (simp add: ObjectId_toString_def hex_digit_def)
  also have "\<dots> = replicate 24 CHR ''0''"
    by (simp add: map_replicate_const)
  also have "\<dots> = ''000000000000000000000000''"
    by (simp add: eval_nat_numeral)
  finally show ?thesis .
qed

lemmas wallet_route_defs = getUserWallet_def add_payment_method_def deposit_def withdraw_def
  amount_rejected_def template_value_def slice_last_def

lemmas escrow_route_defs = create_def start_def deliver_def getWallet_def Let_def
  default_currency_def create_blocks new_Wallet_def

lemma run_600_step1:
  "serve None (Add_Payment_Method ''client1'' pm_body_visa) empty_db = db_600_1"
  by (simp add: empty_db_def pm_body_visa_def db_600_1_def pm_000_def ObjectId_toString_0
      wallet_route_defs new_Wallet_def Let_def store_defs payment_method_valid_def)

lemma run_600_step2:
  "serve None (Deposit_Funds ''client1'' deposit_1000) db_600_1 = db_600_2"
  by (simp add: deposit_1000_def db_600_1_def db_600_2_def pm_000_def ObjectId_toString_0
      wallet_route_defs default_currency_def Let_def store_defs payment_method_valid_def)

lemma run_600_step3:
  "wallets (serve None (Create_Escrow body_600) db_600_2) ''client1'' = Some wallet_370"
  by (simp add: body_600_def body_100_def db_600_2_def wallet_370_def pm_000_def
      ObjectId_toString_0 escrow_route_defs store_defs payment_method_valid_def)

lemma run_600_wallet:
  "wallets (run (map (Pair None) run_600) empty_db) ''client1'' = Some wallet_370"
  by (simp only: run_600_def list.map run.simps run_600_step1 run_600_step2 run_600_step3)


lemma db_unreserved_facts:
  "escrows db_unreserved 0 = Some escrow_delivered"
  "wallets db_unreserved ''client1'' = Some wallet_1000"
  "wallets db_unreserved ''freelancer1'' = None"
  by (simp_all add: db_unreserved_def escrow_route_defs store_defs scenario_defs
      escrow_delivered_def)

lemma db_delivered_ok: "db_ok db_delivered"
  unfolding db_delivered_def by (rule run_ok [OF db_1000_ok])

lemma db_unreserved_ok: "db_ok db_unreserved"
  unfolding db_unreserved_def by (rule run_ok [OF db_1000_ok])

subsection \<open>Wallet invariants\<close>

text \<open>
  C1, as stated, fails on \<open>balance >= reservedBalance\<close>: create checks that the total fits
  the available balance and then both debits the balance by the total and reserves the
  amount. From the empty store, after a card is added, 1000 deposited and an escrow of 600
  funded (total 630), the client wallet holds balance 370 and reserved balance 600.
\<close>

theorem reserved_can_exceed_balance_counterexample:
  "map_option w_balance (wallets (run (map (Pair None) run_600) empty_db) ''client1'')
     = Some 370
   \<and> map_option w_reservedBalance
        (wallets (run (map (Pair None) run_600) empty_db) ''client1'') = Some 600"
  by (simp add: run_600_wallet wallet_370_def)

text \<open>
  C1, amended. For every wallet of the store, after every run of requests from the empty
  store, whatever writes the store refuses on the way: \<open>balance >= 0\<close>,
  \<open>reservedBalance >= 0\<close>, and \<open>reservedBalance\<close> equals the sum of the amounts of the
  wallet's \<open>escrowReserves\<close> entries.
\<close>

theorem wallet_invariant:
  assumes "wallets (run rs empty_db) u = Some w"
  shows "0 \<le> w_balance w \<and> 0 \<le> w_reservedBalance w
     \<and> w_reservedBalance w = sum_list (map r_amount (w_escrowReserves w))"
proof -
  have "db_ok (run rs empty_db)" by (rule run_ok [OF empty_db_ok])
  with assms have "wallet_ok w" by (auto simp: db_ok_def dest: wallets_okD)
  then show ?thesis by (simp add: wallet_ok_def wallet_valid_def)
qed

theorem wallet_invariant_witness:
  "\<exists>w. wallets (run (map (Pair None) run_600) empty_db) ''client1'' = Some w
     \<and> w_balance w = 370 \<and> w_reservedBalance w = 600
     \<and> 0 \<le> w_balance w \<and> 0 \<le> w_reservedBalance w
     \<and> w_reservedBalance w = sum_list (map r_amount (w_escrowReserves w))"
  using wallet_invariant [OF run_600_wallet] by (simp add: run_600_wallet wallet_370_def)



subsection \<open>Atomicity\<close>

text \<open>
  C3 does not hold of deposit (nor of withdraw and create, which save in the same way):
  the transaction and the wallet are saved one after the other, outside any session. When
  the store accepts the first write of a valid deposit and refuses the second, the
  request fails with status 500, the transaction stays in the log and no wallet has
  changed.
\<close>

theorem deposit_not_atomic:
  assumes "wallets d userId = Some w" "userId \<noteq> []"
    and "tb_amount body = Some a" "0 < a" "tb_paymentMethodId body \<noteq> []"
    and "find (\<lambda>m. pm_id m = tb_paymentMethodId body) (w_paymentMethods w) \<noteq> None"
    and "tb_currency body \<noteq> Some []"
  shows "fst (deposit (Some 1) userId body d) = Inl (Server_Error ''Failed to process deposit'')
     \<and> wallets (snd (deposit (Some 1) userId body d)) = wallets d
     \<and> (\<exists>t. transactions (snd (deposit (Some 1) userId body d)) = transactions d @ [t]
            \<and> t_userId t = userId \<and> t_amount t = a \<and> t_type t = Deposit)"
proof -
  have cur: "default_currency (tb_currency body) \<noteq> []"
    using assms(7) by (cases "tb_currency body") (simp_all add: default_currency_def)
  show ?thesis
    using assms cur
    by (simp add: deposit_def getUserWallet_def amount_rejected_def Let_def store_defs)
qed

theorem deposit_not_atomic_witness:
  "fst (deposit (Some 1) ''client1'' deposit_50 db_1000)
     = Inl (Server_Error ''Failed to process deposit'')
   \<and> map_option w_balance
        (wallets (snd (deposit (Some 1) ''client1'' deposit_50 db_1000)) ''client1'')
       = Some 1000
   \<and> (\<exists>t. transactions (snd (deposit (Some 1) ''client1'' deposit_50 db_1000)) = [t]
          \<and> t_userId t = ''client1'' \<and> t_amount t = 50 \<and> t_type t = Deposit)"
  using deposit_not_atomic [of db_1000 "''client1''" wallet_1000 deposit_50 50]
  by (simp add: scenario_defs deposit_50_def)

text \<open>
  Approve is the one route that saves inside a session transaction: when it fails, no
  wallet, escrow or transaction has changed.
\<close>

lemma approve_atomic:
  assumes "approve f escrowId clientId rating feedback d = (Inl err, d')"
  shows "wallets d' = wallets d \<and> escrows d' = escrows d \<and> transactions d' = transactions d"
proof (cases "clientId \<noteq> [] \<and> (\<exists>e cw. escrows d escrowId = Some e \<and> e_clientId e = clientId
           \<and> e_status e = Delivered \<and> wallets d clientId = Some cw)")
  case True
  then obtain e cw where pre: "clientId \<noteq> []" "escrows d escrowId = Some e"
    "e_clientId e = clientId" "e_status e = Delivered" "wallets d clientId = Some cw"
    by blast
  from assms approve_eq [OF pre refl, of f rating feedback] show ?thesis
    by (auto split: if_splits)
next
  case False
  from approve_not_reached [OF this, of f rating feedback] assms show ?thesis by auto
qed

subsection \<open>Approving a delivered escrow\<close>







text \<open>
  C8. On a consistent store, approve by the escrow's client of a delivered escrow whose
  client wallet holds no reserve entry for it succeeds all the same (the rating being one
  the schema accepts, no write refused, client and freelancer two users): the escrow is
  stored as \<open>approved\<close>, the freelancer wallet is credited by \<open>escrow.amount\<close>, and the
  client wallet is stored as it was, balance and reserved balance included.
\<close>

theorem approve_without_reserve:
  assumes ok: "db_ok d"
    and e: "escrows d escrowId = Some e" "e_status e = Delivered" "e_clientId e = clientId"
    and two: "e_clientId e \<noteq> e_freelancerId e"
    and cw: "wallets d clientId = Some cw"
    and none: "findIndex (\<lambda>r. r_escrowId r = escrowId) (w_escrowReserves cw) = None"
    and rating: "rating_valid rating \<or> rating = Some 0"
  shows "\<exists>e' t d' fw'. approve None escrowId clientId rating feedback d = (Inr (e', t), d')
     \<and> e_status e' = Approved \<and> escrows d' escrowId = Some e'
     \<and> wallets d' (e_freelancerId e) = Some fw'
     \<and> w_balance fw'
          = (case wallets d (e_freelancerId e) of None \<Rightarrow> 0 | Some fw \<Rightarrow> w_balance fw)
            + e_amount e
     \<and> wallets d' clientId = Some cw"
proof -
  define fw where "fw = (case wallets d (e_freelancerId e) of
                   Some wallet \<Rightarrow> wallet | None \<Rightarrow> new_Wallet (e_currency e))"
  from ok cw have c: "clientId \<noteq> []" and cwok: "wallet_ok cw"
    by (auto simp: db_ok_def dest: wallets_okD)
  from ok e(1) have ev: "escrow_valid e" and pos: "0 < e_amount e"
    by (auto simp: db_ok_def dest: escrows_okD)
  have rm: "remove_escrow_reserve escrowId cw = cw"
    using none by (simp add: remove_escrow_reserve_def)
  have fwv: "wallet_valid fw"
  proof (cases "wallets d (e_freelancerId e)")
    case None
    then show ?thesis using ev
      by (simp add: fw_def new_Wallet_def wallet_valid_def escrow_valid_def)
  next
    case (Some w)
    with ok show ?thesis by (auto simp: fw_def db_ok_def wallet_ok_def dest: wallets_okD)
  qed
  have commits: "approve_commits None escrowId rating feedback e cw fw d"
    using ev pos cwok fwv rating
    by (auto simp: approve_commits_def rm wallet_ok_def transaction_valid_def
        payment_transaction_def escrow_valid_def update_escrow_status_def wallet_valid_def
        add_funds_def no_fault_within_def rating_valid_def)
  have res: "approve None escrowId clientId rating feedback d =
      (Inr (update_escrow_status rating feedback e,
            payment_transaction (nextId d) escrowId e),
       d\<lparr>nextId := Suc (nextId d),
          transactions := transactions d @ [payment_transaction (nextId d) escrowId e],
          escrows := (escrows d)(escrowId \<mapsto> update_escrow_status rating feedback e),
          wallets := (wallets d)
            (clientId \<mapsto> cw,
             e_freelancerId e \<mapsto> preSave (add_funds (e_amount e) fw))\<rparr>)"
    using approve_eq [OF c e(1) e(3) e(2) cw fw_def, of None rating feedback] commits
    by (simp add: rm wallet_ok_preSave [OF cwok])
  show ?thesis
    unfolding res using two e(3)
    by (simp add: update_escrow_status_def add_funds_def fw_def new_Wallet_def
        split: option.splits)
qed

theorem approve_without_reserve_witness:
  "\<exists>e' t d' fw'. approve None 0 ''client1'' (Some 5) ''Great work'' db_unreserved
        = (Inr (e', t), d')
     \<and> e_status e' = Approved \<and> escrows d' 0 = Some e'
     \<and> wallets d' ''freelancer1'' = Some fw' \<and> w_balance fw' = 100
     \<and> wallets d' ''client1'' = Some wallet_1000"
  using approve_without_reserve [OF db_unreserved_ok db_unreserved_facts(1) _ _ _
          db_unreserved_facts(2), of "Some 5" "''Great work''"]
  by (simp add: escrow_delivered_def wallet_1000_def db_unreserved_facts(3) rating_valid_def)


end
